theory Spec2Isabelle
  imports Main
begin

section \<open>The module skeleton: DAQModuleRenameMe.cpp\<close>

text \<open>
  The file implements four member functions of the class \<open>RenameMe\<close>: its constructor,
  \<open>init\<close>, \<open>generate_opmon_data\<close> and \<open>do_conf\<close>. The class declaration (the header),
  the generated monitoring message \<open>opmon::RenameMeInfo\<close> and the framework base class
  \<open>appfwk::DAQModule\<close> are not among the sources. The value types of the two counters
  are therefore type parameters \<open>'t\<close> and \<open>'d\<close>, and each field of the monitoring message
  has the type of the counter it is filled from.
\<close>

subsection \<open>The monitoring message\<close>

record ('t, 'd) RenameMeInfo =
  total_amount :: 't
  amount_since_last_call :: 'd

text \<open>
  \<open>opmon::RenameMeInfo info;\<close> declares a message whose numeric fields hold zero until
  a setter is called.
\<close>

definition RenameMeInfo_default :: "('t::zero, 'd::zero) RenameMeInfo" where
  "RenameMeInfo_default = \<lparr>total_amount = 0, amount_since_last_call = 0\<rparr>"

definition set_total_amount :: "'t \<Rightarrow> ('t, 'd) RenameMeInfo \<Rightarrow> ('t, 'd) RenameMeInfo" where
  "set_total_amount v info = info\<lparr>total_amount := v\<rparr>"

definition set_amount_since_last_call ::
    "'d \<Rightarrow> ('t, 'd) RenameMeInfo \<Rightarrow> ('t, 'd) RenameMeInfo" where
  "set_amount_since_last_call v info = info\<lparr>amount_since_last_call := v\<rparr>"

subsection \<open>The base class\<close>

text \<open>
  A pointer to a member function of the module, as handed to \<open>register_command\<close>. The
  file takes the address of one member only, \<open>&RenameMe::do_conf\<close>.
\<close>

datatype member_fn = RenameMe_do_conf

datatype error = CommandRegistrationFailed string string

text \<open>
  Modelled from the spec: the base class \<open>appfwk::DAQModule\<close> belongs to the host
  framework and is not among the sources. The spec gives its contract: it stores the
  module's name, holds the commands registered with it (a command name bound to a
  handler), and offers the publication call that accepts a monitoring record. The
  records published so far are kept in the order of publication.
\<close>

record ('t, 'd) DAQModule =
  get_name :: string
  commands :: "string \<rightharpoonup> member_fn"
  published :: "('t, 'd) RenameMeInfo list"

text \<open>
  Modelled from the spec: the base constructor \<open>DAQModule(name)\<close> stores the name; no
  command is registered and nothing is published yet.
\<close>

definition DAQModule_ctor :: "string \<Rightarrow> ('t, 'd) DAQModule" where
  "DAQModule_ctor nm = \<lparr>get_name = nm, commands = Map.empty, published = []\<rparr>"

text \<open>
  Modelled from the spec: \<open>register_command\<close> binds a command name to a handler. The
  spec names no failure of it; the least favourable reading for its callers is taken
  here, in which the host refuses a name that is bound already and raises.
\<close>

definition register_command ::
    "string \<Rightarrow> member_fn \<Rightarrow> ('t, 'd, 'z) DAQModule_scheme
      \<Rightarrow> error + ('t, 'd, 'z) DAQModule_scheme" where
  "register_command cmd f m =
     (case commands m cmd of
        Some _ \<Rightarrow> Inl (CommandRegistrationFailed (get_name m) cmd)
      | None \<Rightarrow> Inr (m\<lparr>commands := (commands m)(cmd \<mapsto> f)\<rparr>))"

text \<open>
  Modelled from the spec: \<open>publish\<close> hands one record to the host's publication path.
\<close>

definition publish ::
    "('t, 'd) RenameMeInfo \<Rightarrow> ('t, 'd, 'z) DAQModule_scheme \<Rightarrow> ('t, 'd, 'z) DAQModule_scheme" where
  "publish info m = m\<lparr>published := published m @ [info]\<rparr>"

subsection \<open>The module\<close>

record ('t, 'd) RenameMe = "('t, 'd) DAQModule" +
  m_total_amount :: 't
  m_amount_since_last_call :: 'd

text \<open>
  The two operations of \<open>std::atomic\<close> the file uses, on the content of one atomic
  cell: \<open>load\<close> returns the content; \<open>exchange\<close> returns the old content together with
  the new content of the cell.
\<close>

definition load :: "'a \<Rightarrow> 'a" where
  "load cell = cell"

definition exchange :: "'a \<Rightarrow> 'a \<Rightarrow> 'a \<times> 'a" where
  "exchange cell desired = (cell, desired)"

text \<open>
  The constructor (lines 19 to 23). The base constructor runs first, then the members
  are initialised, then the body registers the command. The initial contents of the two
  counters are fixed by the header, which is not among the sources: they are the
  parameters \<open>total0\<close> and \<open>delta0\<close>. An exception of \<open>register_command\<close> leaves the
  constructor.
\<close>

definition RenameMe_ctor :: "'t \<Rightarrow> 'd \<Rightarrow> string \<Rightarrow> error + ('t, 'd) RenameMe" where
  "RenameMe_ctor total0 delta0 nm =
     (let base = (DAQModule_ctor nm :: ('t, 'd) DAQModule);
          this = \<lparr>get_name = get_name base, commands = commands base,
                  published = published base,
                  m_total_amount = total0, m_amount_since_last_call = delta0\<rparr>
      in register_command ''conf'' RenameMe_do_conf this)"

text \<open>\<open>init\<close> (lines 25 to 27): the body is empty and the argument is unnamed.\<close>

definition init :: "('t, 'd) RenameMe \<Rightarrow> 'c \<Rightarrow> ('t, 'd) RenameMe" where
  "init m mcfg = m"

text \<open>\<open>generate_opmon_data\<close> (lines 29 to 36).\<close>

definition generate_opmon_data :: "('t::zero, 'd::zero) RenameMe \<Rightarrow> ('t, 'd) RenameMe" where
  "generate_opmon_data m =
     (let info = RenameMeInfo_default;
          info = set_total_amount (load (m_total_amount m)) info;
          (old, cell) = exchange (m_amount_since_last_call m) 0;
          m = m\<lparr>m_amount_since_last_call := cell\<rparr>;
          info = set_amount_since_last_call old info
      in publish info m)"

text \<open>\<open>do_conf\<close> (lines 38 to 41): the body is empty and the argument is unnamed.\<close>

definition do_conf :: "('t, 'd) RenameMe \<Rightarrow> 'p \<Rightarrow> ('t, 'd) RenameMe" where
  "do_conf m payload = m"

text \<open>Calling a module through a pointer to one of its members.\<close>

fun invoke :: "member_fn \<Rightarrow> ('t, 'd) RenameMe \<Rightarrow> 'p \<Rightarrow> ('t, 'd) RenameMe" where
  "invoke RenameMe_do_conf m payload = do_conf m payload"

section \<open>The schema skeleton: renameme.jsonnet\<close>

text \<open>
  The file imports the library \<open>moo.jsonnet\<close>, which is not among the sources, and uses
  three of its members: \<open>moo.oschema.schema\<close>, \<open>moo.re.ident\<close> and
  \<open>moo.oschema.sort_select\<close>.
\<close>

datatype schema_kind = number_kind | boolean_kind | string_kind

text \<open>
  Modelled from the spec: the descriptor that the library's schema builder returns for
  one type is not among the sources. The spec describes an entry of the type table as a
  logical type name with a primitive-type descriptor (kind, byte width, documentation
  string), qualified by the namespace, and for the string type an identifier-pattern
  constraint. The byte width is kept as the type code the source passes (\<open>i8\<close>, \<open>u8\<close>,
  \<open>f8\<close>).
\<close>

record otype =
  name :: string
  path :: string
  kind :: schema_kind
  dtype :: "string option"
  pattern :: "string option"
  doc :: string

text \<open>The object \<open>s\<close> of the source: the three builders the file calls on it.\<close>

record oschema =
  number :: "string \<Rightarrow> string \<Rightarrow> string \<Rightarrow> otype"
  boolean :: "string \<Rightarrow> string \<Rightarrow> otype"
  string :: "string \<Rightarrow> string \<Rightarrow> string \<Rightarrow> otype"

text \<open>
  Modelled from the spec: \<open>moo.oschema.schema\<close> is not among the sources. Given a
  namespace it returns the builders; each builder records its arguments in a descriptor
  of its kind, qualified by that namespace. The arguments are the logical type name, for
  a number the type code, for a string the pattern, and the documentation string
  (\<open>doc=\<close> in the source).
\<close>

definition schema :: "string \<Rightarrow> oschema" where
  "schema p =
     \<lparr>number = (\<lambda>nm dt d.
        \<lparr>name = nm, path = p, kind = number_kind, dtype = Some dt, pattern = None, doc = d\<rparr>),
      boolean = (\<lambda>nm d.
        \<lparr>name = nm, path = p, kind = boolean_kind, dtype = None, pattern = None, doc = d\<rparr>),
      string = (\<lambda>nm pat d.
        \<lparr>name = nm, path = p, kind = string_kind, dtype = None, pattern = Some pat, doc = d\<rparr>)\<rparr>"

text \<open>
  The two members of the library that stay parameters: the pattern \<open>moo.re.ident\<close>, a
  string whose text the sources do not give, and the function \<open>moo.oschema.sort_select\<close>,
  which takes the type table and a namespace; \<open>'r\<close> is the type of what it returns.
\<close>

record 'r moo =
  re_ident :: string
  sort_select :: "(string \<times> otype) list \<Rightarrow> string \<Rightarrow> 'r"

text \<open>Line 2.\<close>

definition ns :: string where
  "ns = ''dunedaq.package.renameme''"

text \<open>
  Lines 3 to 15: the builder \<open>s\<close> for the namespace, and the object \<open>types\<close>, as the
  list of its fields (field name, value) in the order of the source.
\<close>

definition types :: "'r moo \<Rightarrow> (string \<times> otype) list" where
  "types moo =
     (let s = schema ns in
      [(''int8'', number s ''int8'' ''i8'' ''A signed integer of 8 bytes''),
       (''uint8'', number s ''uint8'' ''u8'' ''An unsigned integer of 8 bytes''),
       (''float8'', number s ''float8'' ''f8'' ''A float of 8 bytes''),
       (''boolean'', boolean s ''Boolean'' ''A boolean''),
       (''string'', string s ''String'' (re_ident moo) ''A string'')])"

text \<open>Line 17: the value of the file, which the spec calls \<open>BuildSchema\<close>.\<close>

definition BuildSchema :: "'r moo \<Rightarrow> 'r" where
  "BuildSchema moo = sort_select moo (types moo) ns"

subsection \<open>The schema skeleton as the spec words it\<close>

text \<open>
  The spec's reading of \<open>BuildSchema\<close>, for comparison with the source: a fixed table of
  five primitive aliases (8-byte signed integer, 8-byte unsigned integer, 8-byte float,
  boolean, identifier-constrained string), named \<open>int8\<close>, \<open>uint8\<close>, \<open>float8\<close>,
  \<open>Boolean\<close> and \<open>String\<close>, each with a documentation string, handed with the namespace
  string to the external function, whose result is returned as it is. The spec does not
  quote the documentation strings; they are written here as the source has them.
\<close>

definition five_primitive_aliases :: "string \<Rightarrow> (string \<times> otype) list" where
  "five_primitive_aliases ident_pattern =
     [(''int8'',
       \<lparr>name = ''int8'', path = ''dunedaq.package.renameme'', kind = number_kind,
        dtype = Some ''i8'', pattern = None, doc = ''A signed integer of 8 bytes''\<rparr>),
      (''uint8'',
       \<lparr>name = ''uint8'', path = ''dunedaq.package.renameme'', kind = number_kind,
        dtype = Some ''u8'', pattern = None, doc = ''An unsigned integer of 8 bytes''\<rparr>),
      (''float8'',
       \<lparr>name = ''float8'', path = ''dunedaq.package.renameme'', kind = number_kind,
        dtype = Some ''f8'', pattern = None, doc = ''A float of 8 bytes''\<rparr>),
      (''boolean'',
       \<lparr>name = ''Boolean'', path = ''dunedaq.package.renameme'', kind = boolean_kind,
        dtype = None, pattern = None, doc = ''A boolean''\<rparr>),
      (''string'',
       \<lparr>name = ''String'', path = ''dunedaq.package.renameme'', kind = string_kind,
        dtype = None, pattern = Some ident_pattern, doc = ''A string''\<rparr>)]"

definition BuildSchema_spec :: "'r moo \<Rightarrow> 'r" where
  "BuildSchema_spec moo =
     sort_select moo (five_primitive_aliases (re_ident moo)) ''dunedaq.package.renameme''"


section \<open>Properties of the module skeleton\<close>

text \<open>
  One call of \<open>generate_opmon_data\<close>, as a single update of the module: the record
  appended to the published ones carries the two counters as they were before the call,
  and the since-last-call counter is zero afterwards.
\<close>

lemma generate_opmon_data_eq:
  "generate_opmon_data m =
     m\<lparr>published := published m @
          [\<lparr>total_amount = m_total_amount m,
            amount_since_last_call = m_amount_since_last_call m\<rparr>],
       m_amount_since_last_call := 0\<rparr>"
  by (simp add: generate_opmon_data_def RenameMeInfo_default_def set_total_amount_def
      set_amount_since_last_call_def load_def exchange_def publish_def)

text \<open>
  C1. In every state of the module, \<open>generate_opmon_data\<close> publishes exactly one record:
  the published records afterwards are the ones before followed by one record, whose
  \<open>total_amount\<close> is the total counter and whose \<open>amount_since_last_call\<close> is the
  since-last-call counter, both as they were before the call. When the total counter
  holds 5 and the since-last-call counter holds 3, that record has \<open>total_amount = 5\<close>
  and \<open>amount_since_last_call = 3\<close>.
\<close>

theorem generate_opmon_data_publishes_counters:
  fixes m :: "('t::{zero,numeral}, 'd::{zero,numeral}) RenameMe"
  shows "published (generate_opmon_data m) =
           published m @
             [\<lparr>total_amount = m_total_amount m,
               amount_since_last_call = m_amount_since_last_call m\<rparr>] \<and>
         (m_total_amount m = 5 \<and> m_amount_since_last_call m = 3 \<longrightarrow>
            published (generate_opmon_data m) =
              published m @ [\<lparr>total_amount = 5, amount_since_last_call = 3\<rparr>])"
  by (simp add: generate_opmon_data_eq)

theorem generate_opmon_data_publishes_counters_witness:
  "published (generate_opmon_data
      \<lparr>get_name = ''m1'', commands = [''conf'' \<mapsto> RenameMe_do_conf], published = [],
        m_total_amount = (5::int), m_amount_since_last_call = (3::int)\<rparr>) =
     [\<lparr>total_amount = 5, amount_since_last_call = 3\<rparr>]"
  using generate_opmon_data_publishes_counters
    [of "\<lparr>get_name = ''m1'', commands = [''conf'' \<mapsto> RenameMe_do_conf], published = [],
          m_total_amount = (5::int), m_amount_since_last_call = (3::int)\<rparr>"]
  by simp

text \<open>
  C2. After \<open>generate_opmon_data\<close> returns, the since-last-call counter is zero and the
  total counter is what it was. A second call right after the first one therefore
  publishes a second record with the same \<open>total_amount\<close> and with
  \<open>amount_since_last_call = 0\<close>.
\<close>

theorem generate_opmon_data_read_and_clear:
  fixes m :: "('t::zero, 'd::zero) RenameMe"
  shows "m_amount_since_last_call (generate_opmon_data m) = 0 \<and>
     m_total_amount (generate_opmon_data m) = m_total_amount m \<and>
     published (generate_opmon_data (generate_opmon_data m)) =
       published m @
         [\<lparr>total_amount = m_total_amount m,
           amount_since_last_call = m_amount_since_last_call m\<rparr>,
          \<lparr>total_amount = m_total_amount m, amount_since_last_call = 0\<rparr>]"
  by (simp add: generate_opmon_data_eq)

text \<open>
  C3. For every name the constructor returns a module and raises nothing. The module
  carries the name, its command table binds \<open>conf\<close> to the member \<open>do_conf\<close> and binds no
  other name, and calling that member is calling \<open>do_conf\<close>.
\<close>

theorem RenameMe_ctor_registers_conf:
  "\<exists>m. RenameMe_ctor total0 delta0 nm = Inr m \<and>
       get_name m = nm \<and>
       commands m = [''conf'' \<mapsto> RenameMe_do_conf] \<and>
       dom (commands m) = {''conf''} \<and>
       invoke RenameMe_do_conf m payload = do_conf m payload"
  by (simp add: RenameMe_ctor_def DAQModule_ctor_def register_command_def)

text \<open>
  C5. \<open>do_conf\<close> returns the module as it was, whatever the payload: counters, command
  table, name and published records are the ones before the call. Calling it twice with
  the same payload gives the state that calling it once gives.
\<close>

theorem do_conf_no_state_change:
  "do_conf m payload = m \<and> do_conf (do_conf m payload) payload = do_conf m payload"
  by (simp add: do_conf_def)

text \<open>
  C6. \<open>init\<close> returns the module as it was, whatever the configuration argument: it
  changes no counter, no command, not the name, and it has no error result.
\<close>

theorem init_no_work: "init m mcfg = m"
  by (simp add: init_def)




section \<open>Properties of the schema skeleton\<close>

lemma types_eq: "types moo = five_primitive_aliases (re_ident moo)"
  by (simp add: types_def schema_def ns_def five_primitive_aliases_def Let_def)

lemma types_names:
  "map (name \<circ> snd) (types moo) = [''int8'', ''uint8'', ''float8'', ''Boolean'', ''String'']"
  by (simp add: types_eq five_primitive_aliases_def)

lemma types_paths:
  "map (path \<circ> snd) (types moo) = replicate 5 ''dunedaq.package.renameme''"
  by (simp add: types_eq five_primitive_aliases_def numeral_eq_Suc)

lemma names_distinct: "distinct [''int8'', ''uint8'', ''float8'', ''Boolean'', ''String'']"
  by simp

text \<open>
  C4. The type table has exactly five entries; their logical type names are \<open>int8\<close>,
  \<open>uint8\<close>, \<open>float8\<close>, \<open>Boolean\<close> and \<open>String\<close>; no two entries share a logical name; and
  the one entry named \<open>String\<close> carries the pattern \<open>moo.re.ident\<close>.
\<close>

theorem types_five_unique_names:
  "length (types moo) = 5 \<and>
   set (map (name \<circ> snd) (types moo)) =
     {''int8'', ''uint8'', ''float8'', ''Boolean'', ''String''} \<and>
   distinct (map (name \<circ> snd) (types moo)) \<and>
   map (pattern \<circ> snd) (filter (\<lambda>e. name (snd e) = ''String'') (types moo)) =
     [Some (re_ident moo)]"
proof -
  have len: "length (types moo) = 5"
    by (simp add: types_eq five_primitive_aliases_def)
  have pat: "map (pattern \<circ> snd) (filter (\<lambda>e. name (snd e) = ''String'') (types moo)) =
      [Some (re_ident moo)]"
    by (simp add: types_eq five_primitive_aliases_def)
  have st: "set (map (name \<circ> snd) (types moo)) =
      {''int8'', ''uint8'', ''float8'', ''Boolean'', ''String''}"
    unfolding types_names by (simp only: list.set)
  have ds: "distinct (map (name \<circ> snd) (types moo))"
    unfolding types_names by (rule names_distinct)
  from len st ds pat show ?thesis by (intro conjI)
qed

text \<open>
  C7. Whatever the external sort-and-select function is, the value of the file is the
  value that function returns for the five-entry table and the namespace string: the
  source and the spec's reading of \<open>BuildSchema\<close> agree for every library.
\<close>

theorem BuildSchema_is_sort_select: "BuildSchema moo = BuildSchema_spec moo"
  by (simp add: BuildSchema_def BuildSchema_spec_def types_eq ns_def)

text \<open>
  C10. The namespace string \<open>dunedaq.package.renameme\<close> is the second argument of the
  sort-and-select call, and every entry of the table handed to that call was built for
  this namespace. When the external function returns only descriptors of the table it
  is given, every type definition of the result is qualified by this namespace.
\<close>

theorem BuildSchema_one_namespace:
  fixes moo :: "otype list moo"
  assumes sel: "\<And>tbl n. set (sort_select moo tbl n) \<subseteq> snd ` set tbl"
  shows "BuildSchema moo = sort_select moo (types moo) ''dunedaq.package.renameme'' \<and>
         (\<forall>e \<in> set (types moo). path (snd e) = ''dunedaq.package.renameme'') \<and>
         (\<forall>t \<in> set (BuildSchema moo). path t = ''dunedaq.package.renameme'')"
proof -
  have call: "BuildSchema moo = sort_select moo (types moo) ''dunedaq.package.renameme''"
    by (simp add: BuildSchema_def ns_def)
  have "set (map (path \<circ> snd) (types moo)) \<subseteq> {''dunedaq.package.renameme''}"
    unfolding types_paths by (simp only: set_replicate_conv_if) simp
  then have tbl: "\<forall>e \<in> set (types moo). path (snd e) = ''dunedaq.package.renameme''"
    by auto
  have "set (BuildSchema moo) \<subseteq> snd ` set (types moo)"
    unfolding call by (rule sel)
  with tbl have out: "\<forall>t \<in> set (BuildSchema moo). path t = ''dunedaq.package.renameme''"
    by auto
  from call tbl out show ?thesis by (intro conjI)
qed

theorem BuildSchema_one_namespace_witness:
  "length (BuildSchema
      \<lparr>re_ident = ''[a-z]'',
       sort_select = (\<lambda>tbl n. filter (\<lambda>t. path t = n) (map snd tbl))\<rparr>) = 5 \<and>
   list_all (\<lambda>t. path t = ''dunedaq.package.renameme'')
     (BuildSchema
      \<lparr>re_ident = ''[a-z]'',
       sort_select = (\<lambda>tbl n. filter (\<lambda>t. path t = n) (map snd tbl))\<rparr>)"
proof -
  let ?moo = "\<lparr>re_ident = ''[a-z]'',
       sort_select = (\<lambda>tbl n. filter (\<lambda>t. path t = n) (map snd tbl))\<rparr>"
  have sel: "\<And>tbl n. set (sort_select ?moo tbl n) \<subseteq> snd ` set tbl"
    by auto
  have len: "length (BuildSchema ?moo) = 5"
    by (simp add: BuildSchema_def types_eq five_primitive_aliases_def ns_def)
  from BuildSchema_one_namespace [of ?moo, OF sel]
  have "\<forall>t \<in> set (BuildSchema ?moo). path t = ''dunedaq.package.renameme''"
    by (elim conjE)
  then have "list_all (\<lambda>t. path t = ''dunedaq.package.renameme'') (BuildSchema ?moo)"
    by (simp only: list_all_iff)
  with len show ?thesis by (intro conjI)
qed

end
